theory Spec2Isabelle
  imports Complex_Main "HOL-Library.AList"
begin

section \<open>JavaScript values\<close>

text \<open>
  The values the plugin handles are the values of JSON. A string is a list of bytes (the
  UTF-8 form of the JavaScript string). A number is an exact rational: rounding to a
  double, NaN and the infinities are outside this model. An object is the list of its own
  properties in insertion order; the order in which JavaScript enumerates integer-like
  keys is not modelled, and no definition below depends on it.
\<close>

datatype json =
    JNull
  | JBool bool
  | JNumber rat
  | JString string
  | JArray "json list"
  | JObject "(string \<times> json) list"

text \<open>
  \<open>result[key] = value\<close> on an object created by \<open>{}\<close>, for a string \<open>value\<close>.
  The key \<open>__proto__\<close> is the accessor inherited from \<open>Object.prototype\<close>: its setter
  ignores a value that is neither an object nor null, so no own property is created.
  Every other key is created, or overwritten where it stands.
\<close>

definition set_property :: "(string \<times> json) list \<Rightarrow> string \<Rightarrow> string \<Rightarrow> (string \<times> json) list" where
  "set_property result key v =
     (if key = ''__proto__'' then result else AList.update key (JString v) result)"

text \<open>Reading \<open>obj[key]\<close>: \<open>None\<close> is \<open>undefined\<close>.\<close>

definition get_property :: "(string \<times> json) list \<Rightarrow> string \<Rightarrow> json option" where
  "get_property obj key = map_of obj key"

section \<open>URLSearchParams\<close>

text \<open>
  \<open>new URLSearchParams(body)\<close> runs the application/x-www-form-urlencoded parser of the
  URL standard on the string: a leading \<open>?\<close> is dropped, the input is split on \<open>&\<close>,
  empty pieces are skipped, each piece is split at its first \<open>=\<close>, every \<open>+\<close> becomes
  a space and percent escapes are decoded. The decoded bytes are kept as they are; the
  replacement of malformed UTF-8 by U+FFFD is not modelled.
\<close>

fun split_on :: "char \<Rightarrow> string \<Rightarrow> string list" where
  "split_on d [] = [[]]"
| "split_on d (c # cs) =
     (if c = d then [] # split_on d cs
      else (case split_on d cs of
              [] \<Rightarrow> [[c]]
            | x # xs \<Rightarrow> (c # x) # xs))"

definition is_hex :: "char \<Rightarrow> bool" where
  "is_hex c = (let n = (of_char c :: nat) in
     (48 \<le> n \<and> n \<le> 57) \<or> (65 \<le> n \<and> n \<le> 70) \<or> (97 \<le> n \<and> n \<le> 102))"

definition hex_val :: "char \<Rightarrow> nat" where
  "hex_val c = (let n = (of_char c :: nat) in
     if n \<le> 57 then n - 48 else if n \<le> 70 then n - 55 else n - 87)"

fun percent_decode :: "string \<Rightarrow> string" where
  "percent_decode (c # h # l # rest) =
     (if c = CHR ''%'' \<and> is_hex h \<and> is_hex l
      then char_of (hex_val h * 16 + hex_val l) # percent_decode rest
      else c # percent_decode (h # l # rest))"
| "percent_decode (c # rest) = c # percent_decode rest"
| "percent_decode [] = []"

definition plus_to_space :: "string \<Rightarrow> string" where
  "plus_to_space s = map (\<lambda>c. if c = CHR ''+'' then CHR '' '' else c) s"

definition parse_pair :: "string \<Rightarrow> string \<times> string" where
  "parse_pair bytes =
     (let name = takeWhile (\<lambda>c. c \<noteq> CHR ''='') bytes;
          val = (case dropWhile (\<lambda>c. c \<noteq> CHR ''='') bytes of [] \<Rightarrow> [] | _ # v \<Rightarrow> v)
      in (percent_decode (plus_to_space name), percent_decode (plus_to_space val)))"

definition URLSearchParams :: "string \<Rightarrow> (string \<times> string) list" where
  "URLSearchParams init =
     (let input = (case init of c # cs \<Rightarrow> if c = CHR ''?'' then cs else init | [] \<Rightarrow> [])
      in map parse_pair (filter (\<lambda>bytes. bytes \<noteq> []) (split_on CHR ''&'' input)))"

text \<open>\<open>params.has(name)\<close> and \<open>params.get(name)\<close>: the first value of that name, or null.\<close>

definition params_has :: "(string \<times> string) list \<Rightarrow> string \<Rightarrow> bool" where
  "params_has params name = (name \<in> set (map fst params))"

definition params_get :: "(string \<times> string) list \<Rightarrow> string \<Rightarrow> string option" where
  "params_get params name = map_of params name"






section \<open>Body normalizer\<close>

text \<open>
  An error handed to the host: \<open>statusCode\<close> is \<open>None\<close> when the property is not set.
  \<open>JSON.parse\<close> is a parameter: \<open>Inl m\<close> is a SyntaxError with message \<open>m\<close>.
\<close>

record http_error =
  statusCode :: "nat option"
  message :: string

type_synonym json_parser = "string \<Rightarrow> string + json"

text \<open>The loop \<open>for (const [key, value] of params.entries()) result[key] = value\<close>.\<close>

definition form_to_object :: "(string \<times> string) list \<Rightarrow> (string \<times> json) list" where
  "form_to_object params = foldl (\<lambda>result (key, v). set_property result key v) [] params"

text \<open>
  The parser registered for \<open>application/x-www-form-urlencoded\<close>; \<open>done(err, _)\<close> is
  \<open>Inl err\<close> and \<open>done(null, v)\<close> is \<open>Inr v\<close>. Nothing in the outer \<open>try\<close> block raises
  on a string body, so its \<open>catch\<close> has no branch here. \<open>params.get\<close> cannot return null
  after \<open>params.has\<close>; \<open>JSON.parse(null)\<close> would be null.
\<close>

definition form_parser :: "json_parser \<Rightarrow> string \<Rightarrow> http_error + json" where
  "form_parser JSON_parse body =
     (let params = URLSearchParams body in
      if params_has params ''payload'' then
        (case params_get params ''payload'' of
           None \<Rightarrow> Inr JNull
         | Some p \<Rightarrow>
             (case JSON_parse p of
                Inr parsedPayload \<Rightarrow> Inr parsedPayload
              | Inl err \<Rightarrow>
                  Inl \<lparr>statusCode = Some 400, message = ''Invalid JSON in payload: '' @ err\<rparr>))
      else Inr (JObject (form_to_object params)))"

section \<open>JSON Schema validation\<close>

text \<open>
  The schemas of the source are JSON Schema documents, compiled by Ajv. A schema is the
  list of its keywords, as written. Only the keywords the source uses are modelled.
\<close>

datatype jtype = TString | TNumber | TInteger | TBoolean | TNull | TArray | TObject

datatype keyword =
    Type jtype
  | Enum "json list"
  | Format string
  | Properties "(string \<times> schema) list"
  | Required "string list"
  | AdditionalProperties bool
  | Items schema
  | OneOf "schema list"
and schema = Schema "keyword list"

text \<open>
  One entry of \<open>validate.errors\<close>: \<open>path\<close> is \<open>instancePath\<close> as its list of
  segments, \<open>kind\<close> is the failing keyword and \<open>param\<close> the name it reports
  (\<open>missingProperty\<close>, \<open>additionalProperty\<close>, the expected type or format). The
  spec's missing-required-property, wrong-type, value-not-in-enumeration and
  unexpected-property are \<open>KRequired\<close>, \<open>KType\<close>, \<open>KEnum\<close> and
  \<open>KAdditionalProperties\<close>.
\<close>

datatype violation_kind = KType | KEnum | KFormat | KRequired | KAdditionalProperties | KOneOf

record violation =
  path :: "string list"
  kind :: violation_kind
  param :: string

definition digit_char :: "nat \<Rightarrow> char" where
  "digit_char n = char_of (48 + n)"

fun show_nat :: "nat \<Rightarrow> string" where
  "show_nat n = (if n < 10 then [digit_char n] else show_nat (n div 10) @ [digit_char (n mod 10)])"

declare show_nat.simps [simp del]

text \<open>\<open>instancePath\<close> as Ajv prints it: a JSON pointer, \<open>~\<close> and \<open>/\<close> escaped.\<close>

definition escape_segment :: "string \<Rightarrow> string" where
  "escape_segment s =
     concat (map (\<lambda>c. if c = CHR ''~'' then ''~0'' else if c = CHR ''/'' then ''~1'' else [c]) s)"

definition instancePath :: "string list \<Rightarrow> string" where
  "instancePath p = concat (map (\<lambda>seg. CHR ''/'' # escape_segment seg) p)"

text \<open>Ajv's \<open>integer\<close> test is \<open>typeof data == "number" && !(data % 1)\<close>.\<close>

definition is_integer :: "rat \<Rightarrow> bool" where
  "is_integer q = (frac q = 0)"

fun has_type :: "jtype \<Rightarrow> json \<Rightarrow> bool" where
  "has_type TString v = (case v of JString _ \<Rightarrow> True | _ \<Rightarrow> False)"
| "has_type TNumber v = (case v of JNumber _ \<Rightarrow> True | _ \<Rightarrow> False)"
| "has_type TInteger v = (case v of JNumber q \<Rightarrow> is_integer q | _ \<Rightarrow> False)"
| "has_type TBoolean v = (case v of JBool _ \<Rightarrow> True | _ \<Rightarrow> False)"
| "has_type TNull v = (case v of JNull \<Rightarrow> True | _ \<Rightarrow> False)"
| "has_type TArray v = (case v of JArray _ \<Rightarrow> True | _ \<Rightarrow> False)"
| "has_type TObject v = (case v of JObject _ \<Rightarrow> True | _ \<Rightarrow> False)"

fun type_name :: "jtype \<Rightarrow> string" where
  "type_name TString = ''string''"
| "type_name TNumber = ''number''"
| "type_name TInteger = ''integer''"
| "type_name TBoolean = ''boolean''"
| "type_name TNull = ''null''"
| "type_name TArray = ''array''"
| "type_name TObject = ''object''"

fun declared_properties :: "keyword list \<Rightarrow> string list" where
  "declared_properties [] = []"
| "declared_properties (Properties ps # ks) = map fst ps @ declared_properties ks"
| "declared_properties (_ # ks) = declared_properties ks"

text \<open>
  The format checkers come from ajv-formats: a parameter, \<open>formats name s\<close> telling
  whether the string \<open>s\<close> has the format \<open>name\<close>.
\<close>

type_synonym formats = "string \<Rightarrow> string \<Rightarrow> bool"

text \<open>
  Validation with \<open>allErrors: true\<close> and no type coercion, the options of the test
  suite's validator: every keyword is checked and every violation collected. A keyword
  for objects, arrays or strings says nothing about a value of another type. \<open>oneOf\<close>
  passes when exactly one branch does, and then the violations of the other branches are
  dropped; otherwise they are kept and one more is added.
\<close>

primrec validate :: "formats \<Rightarrow> schema \<Rightarrow> string list \<Rightarrow> json \<Rightarrow> violation list"
and check_keyword :: "formats \<Rightarrow> string list \<Rightarrow> keyword \<Rightarrow> string list \<Rightarrow> json \<Rightarrow> violation list"
and check_keywords :: "formats \<Rightarrow> string list \<Rightarrow> keyword list \<Rightarrow> string list \<Rightarrow> json \<Rightarrow> violation list"
and validate_property :: "formats \<Rightarrow> string \<times> schema \<Rightarrow> string list \<Rightarrow> (string \<times> json) list \<Rightarrow> violation list"
and validate_properties :: "formats \<Rightarrow> (string \<times> schema) list \<Rightarrow> string list \<Rightarrow> (string \<times> json) list \<Rightarrow> violation list"
and validate_branches :: "formats \<Rightarrow> schema list \<Rightarrow> string list \<Rightarrow> json \<Rightarrow> violation list list"
where
  "validate fm (Schema ks) p v = check_keywords fm (declared_properties ks) ks p v"
| "check_keywords fm dp [] p v = []"
| "check_keywords fm dp (k # ks) p v = check_keyword fm dp k p v @ check_keywords fm dp ks p v"
| "check_keyword fm dp (Type t) p v =
     (if has_type t v then [] else [\<lparr>path = p, kind = KType, param = type_name t\<rparr>])"
| "check_keyword fm dp (Enum allowed) p v =
     (if v \<in> set allowed then [] else [\<lparr>path = p, kind = KEnum, param = []\<rparr>])"
| "check_keyword fm dp (Format f) p v =
     (case v of
        JString s \<Rightarrow> if fm f s then [] else [\<lparr>path = p, kind = KFormat, param = f\<rparr>]
      | _ \<Rightarrow> [])"
| "check_keyword fm dp (Properties ps) p v =
     (case v of JObject obj \<Rightarrow> validate_properties fm ps p obj | _ \<Rightarrow> [])"
| "check_keyword fm dp (Required names) p v =
     (case v of
        JObject obj \<Rightarrow>
          concat (map (\<lambda>n. if get_property obj n = None
                            then [\<lparr>path = p, kind = KRequired, param = n\<rparr>] else []) names)
      | _ \<Rightarrow> [])"
| "check_keyword fm dp (AdditionalProperties allowed) p v =
     (case v of
        JObject obj \<Rightarrow>
          if allowed then []
          else concat (map (\<lambda>k. if k \<in> set dp then []
                                 else [\<lparr>path = p, kind = KAdditionalProperties, param = k\<rparr>])
                           (map fst obj))
      | _ \<Rightarrow> [])"
| "check_keyword fm dp (Items s) p v =
     (case v of
        JArray xs \<Rightarrow>
          concat (map (\<lambda>(i, x). validate fm s (p @ [show_nat i]) x) (enumerate 0 xs))
      | _ \<Rightarrow> [])"
| "check_keyword fm dp (OneOf branches) p v =
     (let results = validate_branches fm branches p v in
      if length (filter (\<lambda>r. r = []) results) = 1 then []
      else concat results @ [\<lparr>path = p, kind = KOneOf, param = []\<rparr>])"
| "validate_property fm (name, s) p obj =
     (case get_property obj name of
        None \<Rightarrow> []
      | Some x \<Rightarrow> validate fm s (p @ [name]) x)"
| "validate_properties fm [] p obj = []"
| "validate_properties fm (x # ps) p obj =
     validate_property fm x p obj @ validate_properties fm ps p obj"
| "validate_branches fm [] p v = []"
| "validate_branches fm (s # ss) p v = validate fm s p v # validate_branches fm ss p v"

section \<open>The schemas of the source\<close>

text \<open>The outbound profile: \<open>actionSchema\<close>, \<open>attachmentSchema\<close> and \<open>messageSchema\<close>.\<close>

definition button_styles :: "json list" where
  "button_styles = [JString ''green'', JString ''grey'', JString ''red'', JString ''orange'',
                    JString ''blue'', JString ''teal'']"

definition actionSchema :: schema where
  "actionSchema = Schema
     [Type TObject,
      Properties
        [(''type'', Schema [Type TString, Enum [JString ''button'']]),
         (''text'', Schema [Type TString]),
         (''name'', Schema [Type TString]),
         (''value'', Schema [Type TString]),
         (''style'', Schema [Type TString, Enum button_styles])],
      Required [''type'', ''name'', ''text'', ''value''],
      AdditionalProperties False]"

definition attachmentSchema :: schema where
  "attachmentSchema = Schema
     [Type TObject,
      Properties
        [(''callback_id'', Schema [Type TString]),
         (''text'', Schema [Type TString]),
         (''actions'', Schema [Type TArray, Items actionSchema])],
      Required [''text''],
      AdditionalProperties False]"

definition messageSchema :: schema where
  "messageSchema = Schema
     [OneOf
        [Schema [Type TString],
         Schema
           [Type TObject,
            Properties
              [(''text'', Schema [Type TString]),
               (''file_url'', Schema [Type TString, Format ''uri'']),
               (''user_ids'', Schema [Type TArray, Items (Schema [Type TInteger])]),
               (''attachments'', Schema [Type TArray, Items attachmentSchema])],
            Required [''text''],
            AdditionalProperties False]]]"

text \<open>
  The inbound profile: the \<open>body\<close> schema of \<open>webhookSchema\<close>. The route hands it to
  the host, which compiles it with options of its own (it coerces types: the string
  \<open>"2"\<close> passes for a number). \<open>validate\<close> above coerces nothing, so it is not the
  validator of the route; the pipeline below takes the compiled schema as a parameter.
\<close>

definition webhookSchema :: schema where
  "webhookSchema = Schema
     [Type TObject,
      Properties
        [(''text'', Schema [Type TString]),
         (''file_url'', Schema [Type TString]),
         (''user_ids'', Schema [Type TArray, Items (Schema [Type TNumber])]),
         (''attachments'', Schema
            [Type TArray,
             Items (Schema
               [Type TObject,
                Properties
                  [(''callback_id'', Schema [Type TString]),
                   (''text'', Schema [Type TString]),
                   (''actions'', Schema
                      [Type TArray,
                       Items (Schema
                         [Type TObject,
                          Properties
                            [(''type'', Schema [Type TString, Enum [JString ''button'']]),
                             (''text'', Schema [Type TString]),
                             (''name'', Schema [Type TString]),
                             (''value'', Schema [Type TString]),
                             (''style'', Schema [Type TString, Enum button_styles])],
                          Required [''type'', ''name'', ''text'', ''value'']])])],
                Required [''text'']])])],
      Required [''text''],
      AdditionalProperties True]"

section \<open>Inbound route\<close>

text \<open>
  A thrown JavaScript error, by constructor, with its \<open>message\<close>. The handler
  \<open>onMessage\<close> is a function of the request body that resolves with a value
  (\<open>None\<close> is \<open>undefined\<close>) or rejects with an error; awaiting it gives one or the other.
  A handler that throws a value that is not an error object, or that never settles, is
  outside this model.
\<close>

datatype js_exception = Error string | TypeError string | SyntaxError string

fun exn_message :: "js_exception \<Rightarrow> string" where
  "exn_message (Error m) = m"
| "exn_message (TypeError m) = m"
| "exn_message (SyntaxError m) = m"

datatype handler_outcome = Resolves "json option" | Rejects js_exception

type_synonym handler = "json \<Rightarrow> handler_outcome"

text \<open>
  What the route handler hands back to the host: \<open>Return v\<close> for \<open>return v\<close>,
  \<open>ReplySend c v\<close> for \<open>reply.code(c).send(v)\<close>. The second component of the result
  is what it wrote with \<open>request.log.error\<close>.
\<close>

datatype route_result = Return json | ReplySend nat json

definition route_handler :: "handler \<Rightarrow> json \<Rightarrow> route_result \<times> (js_exception \<times> string) list" where
  "route_handler onMessage body =
     (case onMessage body of
        Resolves result \<Rightarrow>
          (case result of
             None \<Rightarrow> (Return (JObject [(''success'', JBool True)]), [])
           | Some JNull \<Rightarrow> (Return (JObject [(''success'', JBool True)]), [])
           | Some r \<Rightarrow> (Return r, []))
      | Rejects err \<Rightarrow>
          (ReplySend 500 (JObject [(''success'', JBool False), (''error'', JString (exn_message err))]),
           [(err, ''Error processing Synology Chat webhook'')]))"

text \<open>
  The host's side of the route. The README states it for the value a handler returns: an
  object is sent as a JSON response, a string as a plain-text response; the status is 200
  unless \<open>reply.code\<close> set one.
\<close>

datatype response_body = JsonBody json | TextBody string | ErrorBody string

record http_response =
  res_status :: nat
  res_body :: response_body

definition send_reply :: "route_result \<Rightarrow> http_response" where
  "send_reply r =
     (case r of
        Return v \<Rightarrow>
          (case v of
             JString s \<Rightarrow> \<lparr>res_status = 200, res_body = TextBody s\<rparr>
           | _ \<Rightarrow> \<lparr>res_status = 200, res_body = JsonBody v\<rparr>)
      | ReplySend c v \<Rightarrow> \<lparr>res_status = c, res_body = JsonBody v\<rparr>)"

datatype content_type = ApplicationJson | FormUrlencoded

text \<open>
  Modelled from the spec: the parser of JSON bodies is the host's and is not in the
  source. Section 4.3 of the spec: the body is parsed as JSON directly, and a parse
  failure is a client error. The form-encoded case is the parser of the source.
\<close>

definition normalize_body :: "json_parser \<Rightarrow> content_type \<Rightarrow> string \<Rightarrow> http_error + json" where
  "normalize_body JSON_parse ct raw =
     (case ct of
        ApplicationJson \<Rightarrow>
          (case JSON_parse raw of
             Inr v \<Rightarrow> Inr v
           | Inl err \<Rightarrow> Inl \<lparr>statusCode = Some 400, message = err\<rparr>)
      | FormUrlencoded \<Rightarrow> form_parser JSON_parse raw)"

text \<open>
  Modelled from the spec: the request pipeline of the host (section 2: raw body, body
  normalizer, validator, dispatch). An error of the normalizer is answered with its
  status code, a schema violation with 400, and only a validated body reaches the
  handler. The host's schema compiler is not in the source and is a parameter:
  \<open>compile s body\<close> is \<open>None\<close> when the compiled schema refuses the body, and
  \<open>Some body'\<close> otherwise, \<open>body'\<close> being the body as validation leaves it (coerced,
  when the host coerces). The second component of the result lists the bodies the
  handler was invoked with.
\<close>

type_synonym schema_compiler = "schema \<Rightarrow> json \<Rightarrow> json option"

definition handle_request ::
  "json_parser \<Rightarrow> schema_compiler \<Rightarrow> handler \<Rightarrow> content_type \<Rightarrow> string \<Rightarrow> http_response \<times> json list" where
  "handle_request JSON_parse compile onMessage ct raw =
     (case normalize_body JSON_parse ct raw of
        Inl err \<Rightarrow>
          (\<lparr>res_status = (case statusCode err of Some c \<Rightarrow> c | None \<Rightarrow> 500),
            res_body = ErrorBody (message err)\<rparr>, [])
      | Inr msg \<Rightarrow>
          (case compile webhookSchema msg of
             None \<Rightarrow> (\<lparr>res_status = 400, res_body = ErrorBody ''Bad Request''\<rparr>, [])
           | Some validated \<Rightarrow> (send_reply (fst (route_handler onMessage validated)), [validated])))"

section \<open>Outbound sender\<close>

text \<open>
  A request keeps, as its body, the value that \<open>JSON.stringify\<close> is applied to.
  \<open>fetch\<close> is a parameter: a function of the request that rejects with an error or
  resolves with a response. A response is what the Fetch standard makes of it: the body
  is null or a stream that can be read once. \<open>json()\<close> and \<open>text()\<close> both read it; on a
  body already read they reject with a TypeError, on a null body they see the empty
  string and leave nothing used.
\<close>

record fetch_request =
  req_url :: string
  req_method :: string
  req_content_type :: string
  req_body :: json

record fetch_response =
  resp_ok :: bool
  resp_status :: nat
  resp_body :: "string option"

type_synonym fetcher = "fetch_request \<Rightarrow> js_exception + fetch_response"

definition body_unusable :: js_exception where
  "body_unusable = TypeError ''Body is unusable: Body has already been read''"

definition response_text :: "fetch_response \<Rightarrow> bool \<Rightarrow> (js_exception + string) \<times> bool" where
  "response_text r bodyUsed =
     (case resp_body r of
        None \<Rightarrow> (Inr [], bodyUsed)
      | Some t \<Rightarrow> if bodyUsed then (Inl body_unusable, bodyUsed) else (Inr t, True))"

definition response_json :: "json_parser \<Rightarrow> fetch_response \<Rightarrow> bool \<Rightarrow> (js_exception + json) \<times> bool" where
  "response_json JSON_parse r bodyUsed =
     (case resp_body r of
        None \<Rightarrow>
          (case JSON_parse [] of Inl m \<Rightarrow> (Inl (SyntaxError m), bodyUsed) | Inr v \<Rightarrow> (Inr v, bodyUsed))
      | Some t \<Rightarrow>
          if bodyUsed then (Inl body_unusable, bodyUsed)
          else (case JSON_parse t of Inl m \<Rightarrow> (Inl (SyntaxError m), True) | Inr v \<Rightarrow> (Inr v, True)))"

text \<open>
  \<open>url || webhookUrl\<close> and \<open>!targetUrl\<close>: \<open>None\<close> is null, and of the strings only the
  empty one is falsy.
\<close>

definition truthy :: "string option \<Rightarrow> bool" where
  "truthy u = (case u of None \<Rightarrow> False | Some s \<Rightarrow> s \<noteq> [])"

definition js_or :: "string option \<Rightarrow> string option \<Rightarrow> string option" where
  "js_or a b = (if truthy a then a else b)"

definition no_webhook_url :: js_exception where
  "no_webhook_url =
     Error ''No webhook URL provided. Set it in the plugin options or pass it to sendMessage()''"

text \<open>
  \<open>sendMessage(message, url = null)\<close> of a plugin registered with \<open>webhookUrl\<close>. A
  \<open>message\<close> is a JSON value, a string being \<open>JString\<close>. The result is the value
  the promise resolves with or the error it rejects with, and the list of the requests
  handed to \<open>fetch\<close>.
\<close>

definition sendMessage ::
  "json_parser \<Rightarrow> fetcher \<Rightarrow> string option \<Rightarrow> json \<Rightarrow> string option
     \<Rightarrow> (js_exception + json) \<times> fetch_request list" where
  "sendMessage JSON_parse fetch webhookUrl msg url =
     (case js_or url webhookUrl of
        None \<Rightarrow> (Inl no_webhook_url, [])
      | Some targetUrl \<Rightarrow>
          if targetUrl = [] then (Inl no_webhook_url, [])
          else
            (let payload = (case msg of JString s \<Rightarrow> JObject [(''text'', JString s)] | _ \<Rightarrow> msg);
                 request = \<lparr>req_url = targetUrl, req_method = ''POST'',
                            req_content_type = ''application/json'',
                            req_body = payload\<rparr>
             in case fetch request of
                  Inl err \<Rightarrow> (Inl err, [request])
                | Inr response \<Rightarrow>
                    if \<not> resp_ok response then
                      (case response_text response False of
                         (Inl err, _) \<Rightarrow> (Inl err, [request])
                       | (Inr errorText, _) \<Rightarrow>
                           (Inl (Error (''Failed to send message to Synology Chat: ''
                                        @ show_nat (resp_status response) @ '' '' @ errorText)),
                            [request]))
                    else
                      (case response_json JSON_parse response False of
                         (Inr v, _) \<Rightarrow> (Inr v, [request])
                       | (Inl _, bodyUsed) \<Rightarrow>
                           (case response_text response bodyUsed of
                              (Inl err, _) \<Rightarrow> (Inl err, [request])
                            | (Inr raw, _) \<Rightarrow>
                                (Inr (JObject [(''success'', JBool True), (''raw'', JString raw)]),
                                 [request])))))"

section \<open>Running the model\<close>

text \<open>
  Every definition above takes \<open>JSON.parse\<close> and \<open>fetch\<close> as parameters, and every
  theorem below holds for all of them. To run the model on a body, \<open>JSON_read\<close> reads
  the JSON texts that have no \<open>\\u\<close> escape in a string and no exponent in a number
  (a later duplicate of a key overwrites the earlier one where it stands, as in
  \<open>JSON.parse\<close>), and \<open>respond_with r\<close> is a transport that answers every request
  with \<open>r\<close>.
\<close>

definition is_space :: "char \<Rightarrow> bool" where
  "is_space c = (c = CHR '' '' \<or> c = CHR 0x09 \<or> c = CHR 0x0A \<or> c = CHR 0x0D)"

definition skip_space :: "string \<Rightarrow> string" where
  "skip_space s = dropWhile is_space s"

definition is_digit :: "char \<Rightarrow> bool" where
  "is_digit c = (let n = (of_char c :: nat) in 48 \<le> n \<and> n \<le> 57)"

definition digits_value :: "string \<Rightarrow> nat" where
  "digits_value ds = foldl (\<lambda>n c. 10 * n + (of_char c - 48)) 0 ds"

definition read_number :: "string \<Rightarrow> (json \<times> string) option" where
  "read_number s =
     (let (neg, s1) = (case s of c # r \<Rightarrow> if c = CHR ''-'' then (True, r) else (False, s) | [] \<Rightarrow> (False, s));
          ds = takeWhile is_digit s1;
          s2 = dropWhile is_digit s1
      in if ds = [] \<or> (length ds > 1 \<and> hd ds = CHR ''0'') then None
         else
           (let (fs, s3) = (case s2 of
                              c # r \<Rightarrow> if c = CHR ''.'' then (takeWhile is_digit r, dropWhile is_digit r)
                                        else ([], s2)
                            | [] \<Rightarrow> ([], s2));
                q = of_nat (digits_value ds) + of_nat (digits_value fs) / 10 ^ length fs
            in if fs = [] \<and> s3 \<noteq> s2 then None
               else Some (JNumber (if neg then - q else q), s3)))"

definition unescape :: "char \<Rightarrow> char option" where
  "unescape e =
     (if e = CHR 0x22 \<or> e = CHR 0x5C \<or> e = CHR ''/'' then Some e
      else if e = CHR ''n'' then Some (CHR 0x0A)
      else if e = CHR ''t'' then Some (CHR 0x09)
      else if e = CHR ''r'' then Some (CHR 0x0D)
      else if e = CHR ''b'' then Some (CHR 0x08)
      else if e = CHR ''f'' then Some (CHR 0x0C)
      else None)"

fun read_string :: "string \<Rightarrow> (string \<times> string) option" where
  "read_string [] = None"
| "read_string (c # r) =
     (if c = CHR 0x22 then Some ([], r)
      else if c = CHR 0x5C then
        (case r of
           [] \<Rightarrow> None
         | e # r' \<Rightarrow>
             (case unescape e of
                None \<Rightarrow> None
              | Some d \<Rightarrow> (case read_string r' of None \<Rightarrow> None | Some (s, rest) \<Rightarrow> Some (d # s, rest))))
      else if (of_char c :: nat) < 32 then None
      else (case read_string r of None \<Rightarrow> None | Some (s, rest) \<Rightarrow> Some (c # s, rest)))"

definition read_literal :: "string \<Rightarrow> json \<Rightarrow> string \<Rightarrow> (json \<times> string) option" where
  "read_literal word v s = (if take (length word) s = word then Some (v, drop (length word) s) else None)"

fun read_value :: "nat \<Rightarrow> string \<Rightarrow> (json \<times> string) option"
and read_elements :: "nat \<Rightarrow> json list \<Rightarrow> string \<Rightarrow> (json \<times> string) option"
and read_members :: "nat \<Rightarrow> (string \<times> json) list \<Rightarrow> string \<Rightarrow> (json \<times> string) option"
where
  "read_value 0 s = None"
| "read_value (Suc n) s =
     (case skip_space s of
        [] \<Rightarrow> None
      | c # r \<Rightarrow>
          if c = CHR ''{'' then
            (case skip_space r of
               [] \<Rightarrow> None
             | d # r' \<Rightarrow> if d = CHR ''}'' then Some (JObject [], r') else read_members n [] (d # r'))
          else if c = CHR ''['' then
            (case skip_space r of
               [] \<Rightarrow> None
             | d # r' \<Rightarrow> if d = CHR '']'' then Some (JArray [], r') else read_elements n [] (d # r'))
          else if c = CHR 0x22 then
            (case read_string r of None \<Rightarrow> None | Some (str, rest) \<Rightarrow> Some (JString str, rest))
          else if c = CHR ''t'' then read_literal ''true'' (JBool True) (c # r)
          else if c = CHR ''f'' then read_literal ''false'' (JBool False) (c # r)
          else if c = CHR ''n'' then read_literal ''null'' JNull (c # r)
          else read_number (c # r))"
| "read_elements 0 acc s = None"
| "read_elements (Suc n) acc s =
     (case read_value n s of
        None \<Rightarrow> None
      | Some (v, rest) \<Rightarrow>
          (case skip_space rest of
             [] \<Rightarrow> None
           | c # r \<Rightarrow>
               if c = CHR '','' then read_elements n (acc @ [v]) r
               else if c = CHR '']'' then Some (JArray (acc @ [v]), r)
               else None))"
| "read_members 0 acc s = None"
| "read_members (Suc n) acc s =
     (case skip_space s of
        [] \<Rightarrow> None
      | q # r \<Rightarrow>
          if q \<noteq> CHR 0x22 then None
          else
            (case read_string r of
               None \<Rightarrow> None
             | Some (key, rest) \<Rightarrow>
                 (case skip_space rest of
                    [] \<Rightarrow> None
                  | c # r1 \<Rightarrow>
                      if c \<noteq> CHR '':'' then None
                      else
                        (case read_value n r1 of
                           None \<Rightarrow> None
                         | Some (v, rest2) \<Rightarrow>
                             (case skip_space rest2 of
                                [] \<Rightarrow> None
                              | c2 # r2 \<Rightarrow>
                                  if c2 = CHR '','' then read_members n (AList.update key v acc) r2
                                  else if c2 = CHR ''}'' then Some (JObject (AList.update key v acc), r2)
                                  else None)))))"

definition JSON_read :: json_parser where
  "JSON_read s =
     (case read_value (Suc (length s)) s of
        None \<Rightarrow> Inl ''Unexpected token''
      | Some (v, rest) \<Rightarrow>
          if skip_space rest = [] then Inr v else Inl ''Unexpected non-whitespace character after JSON'')"

definition respond_with :: "fetch_response \<Rightarrow> fetcher" where
  "respond_with r request = Inr r"

text \<open>
  Handlers for the scenarios: one that returns a given value, one that throws an
  \<open>Error\<close> with a given message. \<open>accept_all_formats\<close> is a table of format checkers
  that accepts every string.
\<close>

definition replying :: "json option \<Rightarrow> handler" where
  "replying r body = Resolves r"

definition throwing :: "string \<Rightarrow> handler" where
  "throwing m body = Rejects (Error m)"

definition accept_all_formats :: formats where
  "accept_all_formats name s = True"

text \<open>
  A schema compiler that coerces nothing: a body passes, unchanged, when \<open>validate\<close>
  reports no violation.
\<close>

definition compile_strict :: "formats \<Rightarrow> schema_compiler" where
  "compile_strict fm s body = (if validate fm s [] body = [] then Some body else None)"

text \<open>
  The message of the test "rejects attachments with actions but missing callback_id",
  and the message of the scenario of the spec for \<open>user_ids\<close>.
\<close>

definition message_without_callback_id :: json where
  "message_without_callback_id =
     JObject
       [(''text'', JString ''Hello with attachment''),
        (''attachments'', JArray
           [JObject
              [(''text'', JString ''Attachment text''),
               (''actions'', JArray
                  [JObject
                     [(''type'', JString ''button''),
                      (''name'', JString ''action_1''),
                      (''text'', JString ''Click me''),
                      (''value'', JString ''btn_1'')]])]])]"

definition message_with_bad_user_id :: json where
  "message_with_bad_user_id =
     JObject [(''text'', JString ''hi''),
              (''user_ids'', JArray [JNumber 1, JString ''x'', JNumber 3])]"

section \<open>The form serializer and the form parser\<close>





















section \<open>Folding form fields into an object\<close>

lemma set_property_distinct:
  "distinct (map fst acc) \<Longrightarrow> distinct (map fst (set_property acc k v))"
  by (simp add: set_property_def distinct_update)

lemma set_property_lookup:
  "map_of (set_property acc k v) k' =
     (if k' = k \<and> k \<noteq> ''__proto__'' then Some (JString v) else map_of acc k')"
  by (simp add: set_property_def update_conv')

lemma fold_distinct:
  "distinct (map fst acc) \<Longrightarrow>
   distinct (map fst (foldl (\<lambda>result (key, v). set_property result key v) acc ps))"
  by (induction ps arbitrary: acc) (auto simp: set_property_distinct)

lemma fold_lookup:
  "k \<noteq> ''__proto__'' \<Longrightarrow>
   map_of (foldl (\<lambda>result (key, v). set_property result key v) acc ps) k =
     (case map_of (rev ps) k of Some v \<Rightarrow> Some (JString v) | None \<Rightarrow> map_of acc k)"
proof (induction ps arbitrary: acc)
  case Nil
  then show ?case by simp
next
  case (Cons p ps)
  obtain a b where p: "p = (a, b)" by (cases p)
  from Cons.prems show ?case
    by (auto simp: p Cons.IH[OF Cons.prems] set_property_lookup map_add_def split: option.splits)
qed

lemma fold_proto:
  "map_of (foldl (\<lambda>result (key, v). set_property result key v) acc ps) ''__proto__'' = map_of acc ''__proto__''"
  by (induction ps arbitrary: acc) (auto simp: set_property_lookup)

lemma distinct_count_one:
  "distinct (map fst al) \<Longrightarrow> map_of al k = Some v \<Longrightarrow> length (filter (\<lambda>(k', _). k' = k) al) = 1"
proof (induction al)
  case Nil
  then show ?case by simp
next
  case (Cons p al)
  obtain a b where p: "p = (a, b)" by (cases p)
  show ?case
  proof (cases "a = k")
    case True
    with Cons.prems p have "k \<notin> fst ` set al" by auto
    then have "filter (\<lambda>(k', _). k' = k) al = []"
      by (force simp: filter_empty_conv)
    with True p show ?thesis by simp
  next
    case False
    with Cons p show ?thesis by simp
  qed
qed

lemma form_to_object_last_wins:
  assumes "k \<noteq> ''__proto__''" and "map_of (rev params) k = Some v"
  shows "length (filter (\<lambda>(k', _). k' = k) (form_to_object params)) = 1
       \<and> get_property (form_to_object params) k = Some (JString v)"
proof -
  have l: "map_of (form_to_object params) k = Some (JString v)"
    using fold_lookup[OF assms(1), of "[]" params] assms(2) by (simp add: form_to_object_def)
  have "distinct (map fst (form_to_object params))"
    unfolding form_to_object_def by (rule fold_distinct) simp
  from distinct_count_one[OF this l] l show ?thesis by (simp add: get_property_def)
qed

section \<open>Outbound sender: destination and validation\<close>

lemma validate_message_without_callback_id:
  "validate fm messageSchema [] message_without_callback_id = []"
  by (simp add: messageSchema_def attachmentSchema_def actionSchema_def
      message_without_callback_id_def get_property_def button_styles_def enumerate_eq_zip)

lemma sendMessage_requests:
  "js_or url webhookUrl = Some t \<Longrightarrow> t \<noteq> [] \<Longrightarrow>
   snd (sendMessage JSON_parse fetch webhookUrl msg url) =
     [\<lparr>req_url = t, req_method = ''POST'', req_content_type = ''application/json'',
       req_body = (case msg of JString s \<Rightarrow> JObject [(''text'', JString s)] | _ \<Rightarrow> msg)\<rparr>]"
  by (simp add: sendMessage_def Let_def split: sum.splits prod.splits)

lemma sendMessage_no_target:
  "\<not> truthy (js_or url webhookUrl) \<Longrightarrow>
   sendMessage JSON_parse fetch webhookUrl msg url = (Inl no_webhook_url, [])"
  by (auto simp: sendMessage_def truthy_def split: option.splits)

text \<open>
  C1. The claim: a message with an attachment that has actions and no \<open>callback_id\<close> is
  rejected by the validation of the send path, with a missing-required-property
  violation at the attachment, and \<open>sendMessage\<close> fails before any delivery attempt. The
  code does neither. \<open>attachmentSchema\<close> requires \<open>text\<close> only, so the message of the
  test suite has no violation under \<open>messageSchema\<close>; and \<open>sendMessage\<close> validates
  nothing, so for every parser and every transport the message is handed to \<open>fetch\<close>.
\<close>

theorem missing_callback_id_is_sent:
  "validate fm messageSchema [] message_without_callback_id = []
   \<and> snd (sendMessage JSON_parse fetch (Some ''https://example.com/webhook'')
            message_without_callback_id None) =
       [\<lparr>req_url = ''https://example.com/webhook'', req_method = ''POST'',
         req_content_type = ''application/json'', req_body = message_without_callback_id\<rparr>]"
proof -
  have "js_or None (Some ''https://example.com/webhook'') = Some ''https://example.com/webhook''"
    by (simp add: js_or_def truthy_def)
  from sendMessage_requests[OF this] show ?thesis
    by (simp add: validate_message_without_callback_id)
       (simp add: message_without_callback_id_def)
qed

text \<open>
  C4. The claim: the destination is the per-call override when one is supplied, otherwise
  the configured \<open>webhookUrl\<close>; with neither, the call fails with the error "No webhook
  URL provided" before any network operation. The code resolves the destination with
  \<open>url || webhookUrl\<close>, which tests truthiness, so an override that is supplied but empty is
  passed over (the counterexample below). Amended: a non-empty override is the
  destination; without one, a non-empty \<open>webhookUrl\<close> is; with neither, the call fails
  with that error and no request is made.
\<close>

theorem sendMessage_destination:
  "(u \<noteq> [] \<longrightarrow> map req_url (snd (sendMessage JSON_parse fetch webhookUrl msg (Some u))) = [u])
   \<and> (\<not> truthy url \<and> d \<noteq> [] \<longrightarrow>
        map req_url (snd (sendMessage JSON_parse fetch (Some d) msg url)) = [d])
   \<and> (\<not> truthy url \<and> \<not> truthy webhookUrl \<longrightarrow>
        sendMessage JSON_parse fetch webhookUrl msg url = (Inl no_webhook_url, []))"
proof (intro conjI impI)
  assume "u \<noteq> []"
  then have "js_or (Some u) webhookUrl = Some u" by (simp add: js_or_def truthy_def)
  from sendMessage_requests[OF this \<open>u \<noteq> []\<close>]
  show "map req_url (snd (sendMessage JSON_parse fetch webhookUrl msg (Some u))) = [u]" by simp
next
  assume a: "\<not> truthy url \<and> d \<noteq> []"
  then have "js_or url (Some d) = Some d" by (simp add: js_or_def)
  from sendMessage_requests[OF this] a
  show "map req_url (snd (sendMessage JSON_parse fetch (Some d) msg url)) = [d]" by simp
next
  assume "\<not> truthy url \<and> \<not> truthy webhookUrl"
  then have "\<not> truthy (js_or url webhookUrl)" by (simp add: js_or_def)
  then show "sendMessage JSON_parse fetch webhookUrl msg url = (Inl no_webhook_url, [])"
    by (rule sendMessage_no_target)
qed

text \<open>
  The three cases of C4 as amended, run: an override, the default alone, and neither.
\<close>

theorem sendMessage_destination_witness:
  "map req_url (snd (sendMessage JSON_read
      (respond_with \<lparr>resp_ok = True, resp_status = 200, resp_body = None\<rparr>)
      (Some ''https://example.com/webhook'') (JString ''hi'') (Some ''https://example.com/custom'')))
     = [''https://example.com/custom'']
   \<and> map req_url (snd (sendMessage JSON_read
      (respond_with \<lparr>resp_ok = True, resp_status = 200, resp_body = None\<rparr>)
      (Some ''https://example.com/webhook'') (JString ''hi'') None))
     = [''https://example.com/webhook'']
   \<and> sendMessage JSON_read
      (respond_with \<lparr>resp_ok = True, resp_status = 200, resp_body = None\<rparr>)
      None (JString ''hi'') None
     = (Inl (Error ''No webhook URL provided. Set it in the plugin options or pass it to sendMessage()''), [])"
  using sendMessage_destination[of "''https://example.com/custom''" JSON_read
      "respond_with \<lparr>resp_ok = True, resp_status = 200, resp_body = None\<rparr>"
      "Some ''https://example.com/webhook''" "JString ''hi''" None "''https://example.com/webhook''"]
    sendMessage_destination[of "''x''" JSON_read
      "respond_with \<lparr>resp_ok = True, resp_status = 200, resp_body = None\<rparr>"
      None "JString ''hi''" None "''x''"]
  by (simp add: truthy_def no_webhook_url_def)

text \<open>
  C4 as stated fails: the override \<open>''''\<close> is supplied, and the request goes to the
  configured default, not to the override.
\<close>

theorem empty_override_counterexample:
  "map req_url (snd (sendMessage JSON_read
      (respond_with \<lparr>resp_ok = True, resp_status = 200, resp_body = None\<rparr>)
      (Some ''https://example.com/webhook'') (JString ''hi'') (Some '''')))
   = [''https://example.com/webhook'']"
proof -
  have "js_or (Some '''') (Some ''https://example.com/webhook'') = Some ''https://example.com/webhook''"
    by (simp add: js_or_def truthy_def)
  from sendMessage_requests[OF this] show ?thesis by simp
qed



section \<open>Outbound sender: the response\<close>

lemma JSON_read_OK: "JSON_read ''OK'' = Inl ''Unexpected token''"
  by code_simp

lemma raw_fallback_null_body:
  "resp_ok r \<Longrightarrow> resp_body r = None \<Longrightarrow> JSON_parse [] = Inl m \<Longrightarrow>
   js_or url webhookUrl = Some target \<Longrightarrow> target \<noteq> [] \<Longrightarrow>
   fst (sendMessage JSON_parse (respond_with r) webhookUrl msg url)
     = Inr (JObject [(''success'', JBool True), (''raw'', JString [])])"
  by (simp add: sendMessage_def Let_def respond_with_def response_json_def response_text_def)

text \<open>
  C3. The claim: when the response is ok and its body is not JSON, \<open>sendMessage\<close> returns
  \<open>{success: true, raw: <the response text>}\<close>. The code reads the body twice:
  \<open>response.json()\<close> reads it and fails to parse it, and the \<open>catch\<close> block calls
  \<open>response.text()\<close> on the body already read, which rejects. So for every response that
  is ok with a body that \<open>JSON.parse\<close> refuses, \<open>sendMessage\<close> rejects with the
  TypeError of the second read. The fallback is reached only by a response with no body
  (\<open>raw_fallback_null_body\<close>).
\<close>

theorem raw_fallback_rejects:
  "resp_ok r \<Longrightarrow> resp_body r = Some t \<Longrightarrow> JSON_parse t = Inl m \<Longrightarrow>
   js_or url webhookUrl = Some target \<Longrightarrow> target \<noteq> [] \<Longrightarrow>
   fst (sendMessage JSON_parse (respond_with r) webhookUrl msg url) = Inl body_unusable"
  by (simp add: sendMessage_def Let_def respond_with_def response_json_def response_text_def)

text \<open>C3 at a response 200 with the body \<open>OK\<close>.\<close>

theorem raw_fallback_rejects_witness:
  "resp_ok \<lparr>resp_ok = True, resp_status = 200, resp_body = Some ''OK''\<rparr>
   \<and> JSON_read ''OK'' = Inl ''Unexpected token''
   \<and> js_or None (Some ''https://example.com/webhook'') = Some ''https://example.com/webhook''
   \<and> fst (sendMessage JSON_read
              (respond_with \<lparr>resp_ok = True, resp_status = 200, resp_body = Some ''OK''\<rparr>)
              (Some ''https://example.com/webhook'') (JString ''test message'') None)
       = Inl (TypeError ''Body is unusable: Body has already been read'')"
  using raw_fallback_rejects[of "\<lparr>resp_ok = True, resp_status = 200, resp_body = Some ''OK''\<rparr>"
      "''OK''" JSON_read "''Unexpected token''" None "Some ''https://example.com/webhook''"
      "''https://example.com/webhook''" "JString ''test message''"]
    JSON_read_OK
  by (simp add: js_or_def truthy_def body_unusable_def)

section \<open>Body normalizer: the two encodings\<close>


lemma JSON_read_invalid: "JSON_read ''{ invalid json }'' = Inl ''Unexpected token''"
  by code_simp


lemma invalid_payload_params:
  "params_get (URLSearchParams ''payload=%7B+invalid+json+%7D'') ''payload'' = Some ''{ invalid json }''"
  by code_simp

lemma form_parser_payload:
  assumes "params_get (URLSearchParams raw) ''payload'' = Some p"
  shows "form_parser JSON_parse raw =
     (case JSON_parse p of
        Inr parsedPayload \<Rightarrow> Inr parsedPayload
      | Inl err \<Rightarrow> Inl \<lparr>statusCode = Some 400, message = ''Invalid JSON in payload: '' @ err\<rparr>)"
proof -
  from assms have "params_has (URLSearchParams raw) ''payload''"
    unfolding params_has_def params_get_def
    by (metis map_of_eq_None_iff option.distinct(1) set_map)
  with assms show ?thesis
    by (simp add: form_parser_def Let_def)
qed



text \<open>
  C7. A form-encoded body whose field \<open>payload\<close> is present with a value that
  \<open>JSON.parse\<close> refuses: the parser fails with an error of status code 400, and the
  request is answered with 400 without the handler being invoked, whatever the host's
  compiled schema is.
\<close>

theorem invalid_payload_is_rejected:
  "params_get (URLSearchParams raw) ''payload'' = Some p \<Longrightarrow> JSON_parse p = Inl m \<Longrightarrow>
   form_parser JSON_parse raw
     = Inl \<lparr>statusCode = Some 400, message = ''Invalid JSON in payload: '' @ m\<rparr>
   \<and> handle_request JSON_parse compile onMessage FormUrlencoded raw
     = (\<lparr>res_status = 400, res_body = ErrorBody (''Invalid JSON in payload: '' @ m)\<rparr>, [])"
  using form_parser_payload[of raw p JSON_parse]
  by (simp add: handle_request_def normalize_body_def)

text \<open>C7 at the body of the test "handles invalid JSON in payload parameter".\<close>

theorem invalid_payload_is_rejected_witness:
  "params_get (URLSearchParams ''payload=%7B+invalid+json+%7D'') ''payload'' = Some ''{ invalid json }''
   \<and> JSON_read ''{ invalid json }'' = Inl ''Unexpected token''
   \<and> form_parser JSON_read ''payload=%7B+invalid+json+%7D''
     = Inl \<lparr>statusCode = Some 400, message = ''Invalid JSON in payload: Unexpected token''\<rparr>
   \<and> handle_request JSON_read (compile_strict accept_all_formats) (replying None) FormUrlencoded
        ''payload=%7B+invalid+json+%7D''
     = (\<lparr>res_status = 400, res_body = ErrorBody ''Invalid JSON in payload: Unexpected token''\<rparr>, [])"
  using invalid_payload_is_rejected[of "''payload=%7B+invalid+json+%7D''" "''{ invalid json }''"
      JSON_read "''Unexpected token''" "compile_strict accept_all_formats" "replying None"]
    invalid_payload_params JSON_read_invalid
  by simp

text \<open>
  C9. The claim: without a \<open>payload\<close> field, a key that occurs more than once in the
  form body is in the object exactly once, with the value of its last occurrence. That
  holds for every key but one (\<open>form_to_object_last_wins\<close>). The key \<open>__proto__\<close> is
  never stored: the assignment \<open>result[key] = value\<close> reaches the setter inherited from
  \<open>Object.prototype\<close>, which ignores a string. Here it occurs twice in the body and not at
  all in the object.
\<close>

theorem proto_field_is_dropped:
  "form_parser JSON_parse ''text=hi&__proto__=a&__proto__=b'' = Inr (JObject [(''text'', JString ''hi'')])"
  by (simp add: form_parser_def URLSearchParams_def parse_pair_def plus_to_space_def params_has_def
      form_to_object_def set_property_def Let_def)

section \<open>Dispatch\<close>

text \<open>
  C5. When the handler raises an error, the route answers with status 500 and the JSON
  body \<open>{success: false, error: <the message of the error>}\<close>, and logs the error.
\<close>

theorem handler_error_is_answered:
  "onMessage body = Rejects err \<Longrightarrow>
   send_reply (fst (route_handler onMessage body))
     = \<lparr>res_status = 500,
        res_body = JsonBody (JObject [(''success'', JBool False), (''error'', JString (exn_message err))])\<rparr>
   \<and> snd (route_handler onMessage body) = [(err, ''Error processing Synology Chat webhook'')]"
  by (simp add: route_handler_def send_reply_def)

text \<open>C5 at the scenario of the spec: the handler raises with the message \<open>boom\<close>.\<close>

theorem handler_error_is_answered_witness:
  "throwing ''boom'' (JObject [(''text'', JString ''hi'')]) = Rejects (Error ''boom'')
   \<and> send_reply (fst (route_handler (throwing ''boom'') (JObject [(''text'', JString ''hi'')])))
     = \<lparr>res_status = 500,
        res_body = JsonBody (JObject [(''success'', JBool False), (''error'', JString ''boom'')])\<rparr>"
  using handler_error_is_answered[of "throwing ''boom''" "JObject [(''text'', JString ''hi'')]" "Error ''boom''"]
  by (simp add: throwing_def)

text \<open>
  C6. The result of the handler, once awaited: an object is the JSON body of the
  response, a string is its plain-text body as it is, and \<open>undefined\<close> or \<open>null\<close> gives
  the body \<open>{success: true}\<close>; the status is 200 in each case.
\<close>

theorem handler_result_mapping:
  "(onMessage body = Resolves (Some (JObject obj)) \<longrightarrow>
      send_reply (fst (route_handler onMessage body))
        = \<lparr>res_status = 200, res_body = JsonBody (JObject obj)\<rparr>)
   \<and> (onMessage body = Resolves (Some (JString s)) \<longrightarrow>
      send_reply (fst (route_handler onMessage body))
        = \<lparr>res_status = 200, res_body = TextBody s\<rparr>)
   \<and> (onMessage body = Resolves None \<or> onMessage body = Resolves (Some JNull) \<longrightarrow>
      send_reply (fst (route_handler onMessage body))
        = \<lparr>res_status = 200, res_body = JsonBody (JObject [(''success'', JBool True)])\<rparr>)"
  by (auto simp: route_handler_def send_reply_def)

text \<open>C6 at a handler that returns an object, the string \<open>OK\<close>, nothing, and null.\<close>

theorem handler_result_mapping_witness:
  "send_reply (fst (route_handler (replying (Some (JObject [(''text'', JString ''Message received!'')])))
       (JObject [(''text'', JString ''hi'')])))
     = \<lparr>res_status = 200, res_body = JsonBody (JObject [(''text'', JString ''Message received!'')])\<rparr>
   \<and> send_reply (fst (route_handler (replying (Some (JString ''OK''))) (JObject [(''text'', JString ''hi'')])))
     = \<lparr>res_status = 200, res_body = TextBody ''OK''\<rparr>
   \<and> send_reply (fst (route_handler (replying None) (JObject [(''text'', JString ''hi'')])))
     = \<lparr>res_status = 200, res_body = JsonBody (JObject [(''success'', JBool True)])\<rparr>
   \<and> send_reply (fst (route_handler (replying (Some JNull)) (JObject [(''text'', JString ''hi'')])))
     = \<lparr>res_status = 200, res_body = JsonBody (JObject [(''success'', JBool True)])\<rparr>"
  using handler_result_mapping[of "replying (Some (JObject [(''text'', JString ''Message received!'')]))"
      "JObject [(''text'', JString ''hi'')]" "[(''text'', JString ''Message received!'')]" "''x''"]
    handler_result_mapping[of "replying (Some (JString ''OK''))" "JObject [(''text'', JString ''hi'')]" "[]" "''OK''"]
    handler_result_mapping[of "replying None" "JObject [(''text'', JString ''hi'')]" "[]" "''x''"]
    handler_result_mapping[of "replying (Some JNull)" "JObject [(''text'', JString ''hi'')]" "[]" "''x''"]
  by (simp add: replying_def)

section \<open>Validation of \<open>user_ids\<close>\<close>

lemma check_keywords_member:
  "k \<in> set ks \<Longrightarrow> v \<in> set (check_keyword fm dp k p x) \<Longrightarrow> v \<in> set (check_keywords fm dp ks p x)"
  by (induction ks) auto

lemma validate_properties_member:
  "(name, s) \<in> set ps \<Longrightarrow> get_property obj name = Some x \<Longrightarrow>
   v \<in> set (validate fm s (p @ [name]) x) \<Longrightarrow> v \<in> set (validate_properties fm ps p obj)"
  by (induction ps) auto

lemma items_type_violation:
  assumes "i < length xs" and "\<not> has_type t (xs ! i)"
  shows "\<lparr>path = p @ [show_nat i], kind = KType, param = type_name t\<rparr>
           \<in> set (check_keyword fm dp (Items (Schema [Type t])) p (JArray xs))"
proof -
  have "(i, xs ! i) \<in> set (enumerate 0 xs)"
    using assms(1) by (simp add: in_set_enumerate_eq)
  then show ?thesis
    using assms(2) by (force simp: image_iff)
qed

lemma array_property_violation:
  assumes "(name, Schema [Type TArray, Items (Schema [Type t])]) \<in> set ps"
    and "get_property obj name = Some (JArray xs)" and "i < length xs"
    and "\<not> has_type t (xs ! i)"
  shows "\<lparr>path = p @ [name, show_nat i], kind = KType, param = type_name t\<rparr>
           \<in> set (check_keyword fm dp (Properties ps) p (JObject obj))"
proof -
  let ?v = "\<lparr>path = p @ [name, show_nat i], kind = KType, param = type_name t\<rparr>"
  have "?v \<in> set (check_keyword fm [] (Items (Schema [Type t])) (p @ [name]) (JArray xs))"
    using items_type_violation[OF assms(3,4), of "p @ [name]" fm "[]"] by simp
  then have "?v \<in> set (validate fm (Schema [Type TArray, Items (Schema [Type t])]) (p @ [name]) (JArray xs))"
    by simp
  from validate_properties_member[OF assms(1,2) this] show ?thesis by simp
qed

lemma outbound_user_ids_violation:
  assumes "get_property obj ''user_ids'' = Some (JArray xs)" and "i < length xs"
    and "\<not> has_type TInteger (xs ! i)"
  shows "\<lparr>path = [''user_ids'', show_nat i], kind = KType, param = ''integer''\<rparr>
           \<in> set (validate fm messageSchema [] (JObject obj))"
proof -
  let ?v = "\<lparr>path = [''user_ids'', show_nat i], kind = KType, param = ''integer''\<rparr>"
  define ps where "ps =
    [(''text'', Schema [Type TString]),
     (''file_url'', Schema [Type TString, Format ''uri'']),
     (''user_ids'', Schema [Type TArray, Items (Schema [Type TInteger])]),
     (''attachments'', Schema [Type TArray, Items attachmentSchema])]"
  define ob where "ob = Schema [Type TObject, Properties ps, Required [''text''], AdditionalProperties False]"
  have ms: "messageSchema = Schema [OneOf [Schema [Type TString], ob]]"
    by (simp add: messageSchema_def ob_def ps_def)
  have "(''user_ids'', Schema [Type TArray, Items (Schema [Type TInteger])]) \<in> set ps"
    by (simp add: ps_def)
  from array_property_violation[OF this assms, of "[]" fm "declared_properties [Type TObject, Properties ps, Required [''text''], AdditionalProperties False]"]
  have "?v \<in> set (validate fm ob [] (JObject obj))"
    by (simp add: ob_def)
  then show ?thesis
    by (auto simp: ms Let_def)
qed

text \<open>
  C8. The claim: an element of \<open>user_ids\<close> that is not an integer is reported as a
  wrong-type violation at the path of the element, under both profiles. The inbound
  schema asks for \<open>number\<close>, not \<open>integer\<close>, so it accepts 1.5 (the counterexample
  below). Amended, for the outbound profile alone: in every message object, an element
  of \<open>user_ids\<close> that is not an integer is reported as a type violation at
  \<open>/user_ids/i\<close>. Nothing is stated of what the inbound profile reports: its validator
  is the host's.
\<close>

theorem user_ids_type_violation:
  "get_property obj ''user_ids'' = Some (JArray xs) \<Longrightarrow> i < length xs \<Longrightarrow>
   \<not> has_type TInteger (xs ! i) \<Longrightarrow>
   \<lparr>path = [''user_ids'', show_nat i], kind = KType, param = ''integer''\<rparr>
     \<in> set (validate fm messageSchema [] (JObject obj))"
  by (rule outbound_user_ids_violation)

lemma show_nat_1: "show_nat (Suc 0) = ''1''"
  by code_simp

lemma instancePath_user_ids_1: "instancePath [''user_ids'', ''1''] = ''/user_ids/1''"
  by code_simp

text \<open>C8 at the scenario of the spec: \<open>{text: "hi", user_ids: [1, "x", 3]}\<close>.\<close>

theorem user_ids_type_violation_witness:
  "get_property [(''text'', JString ''hi''), (''user_ids'', JArray [JNumber 1, JString ''x'', JNumber 3])]
      ''user_ids'' = Some (JArray [JNumber 1, JString ''x'', JNumber 3])
   \<and> \<not> has_type TInteger ([JNumber 1, JString ''x'', JNumber 3] ! 1)
   \<and> instancePath [''user_ids'', show_nat 1] = ''/user_ids/1''
   \<and> \<lparr>path = [''user_ids'', show_nat 1], kind = KType, param = ''integer''\<rparr>
        \<in> set (validate accept_all_formats messageSchema [] message_with_bad_user_id)"
  using user_ids_type_violation[of "[(''text'', JString ''hi''), (''user_ids'', JArray [JNumber 1, JString ''x'', JNumber 3])]"
      "[JNumber 1, JString ''x'', JNumber 3]" 1 accept_all_formats]
  by (simp add: get_property_def message_with_bad_user_id_def show_nat_1 instancePath_user_ids_1)

text \<open>
  C8 as stated fails on the inbound profile: 3/2 is not an integer, and
  \<open>webhookSchema\<close> has no violation for \<open>{text: "hi", user_ids: [1.5]}\<close>, already when
  nothing is coerced (a host that coerces does so only to make a failed type check pass).
\<close>

theorem inbound_accepts_fractional_user_id:
  "\<not> has_type TInteger (JNumber (3 / 2))
   \<and> validate accept_all_formats webhookSchema []
       (JObject [(''text'', JString ''hi''), (''user_ids'', JArray [JNumber (3 / 2)])]) = []"
  by (simp add: webhookSchema_def get_property_def is_integer_def enumerate_eq_zip)

end
